theory Spec2Isabelle
  imports Complex_Main "HOL-Library.Sublist"
begin

section \<open>JavaScript strings\<close>

text \<open>
  A JavaScript string is a sequence of UTF-16 code units. A code unit is modelled as a
  natural number, so that the character classes of the regular expressions in
  \<^verbatim>\<open>voice.js\<close> (\<^verbatim>\<open>\s\<close>, \<^verbatim>\<open>\w\<close>) can be written with their exact members.
  \<open>js\<close> turns an ASCII literal into its code units.
\<close>

type_synonym jschar = nat
type_synonym jsstring = "jschar list"

definition js :: "string \<Rightarrow> jsstring" where
  "js cs = map of_char cs"

definition backtick :: jschar where "backtick = 96"
definition dollar :: jschar where "dollar = 36"
definition lbracket :: jschar where "lbracket = 91"
definition rbracket :: jschar where "rbracket = 93"
definition lparen :: jschar where "lparen = 40"
definition rparen :: jschar where "rparen = 41"
definition hyphen :: jschar where "hyphen = 45"
definition space :: jschar where "space = 32"

text \<open>\<^verbatim>\<open>\w\<close> is \<^verbatim>\<open>[A-Za-z0-9_]\<close> (no \<^verbatim>\<open>u\<close> or \<^verbatim>\<open>i\<close> flag is used).\<close>

definition isWord :: "jschar \<Rightarrow> bool" where
  "isWord c \<longleftrightarrow> (48 \<le> c \<and> c \<le> 57) \<or> (65 \<le> c \<and> c \<le> 90) \<or> (97 \<le> c \<and> c \<le> 122) \<or> c = 95"

text \<open>
  \<^verbatim>\<open>\s\<close> and \<^verbatim>\<open>String.prototype.trim\<close> use the same set: ECMAScript WhiteSpace
  (TAB, VT, FF, SP, NBSP, ZWNBSP and the Unicode space separators) and LineTerminator
  (LF, CR, LS, PS).
\<close>

definition isSpace :: "jschar \<Rightarrow> bool" where
  "isSpace c \<longleftrightarrow> (9 \<le> c \<and> c \<le> 13) \<or> c = 32 \<or> c = 160 \<or> c = 5760 \<or> (8192 \<le> c \<and> c \<le> 8202)
     \<or> c = 8232 \<or> c = 8233 \<or> c = 8239 \<or> c = 8287 \<or> c = 12288 \<or> c = 65279"

text \<open>The sentence terminators \<^verbatim>\<open>[.!?]\<close>.\<close>

definition isTerminator :: "jschar \<Rightarrow> bool" where
  "isTerminator c \<longleftrightarrow> c = 46 \<or> c = 33 \<or> c = 63"

text \<open>The markers removed by \<^verbatim>\<open>/[*#_]/g\<close>.\<close>

definition isMarker :: "jschar \<Rightarrow> bool" where
  "isMarker c \<longleftrightarrow> c = 42 \<or> c = 35 \<or> c = 95"

text \<open>\<^verbatim>\<open>s.startsWith(p)\<close>, \<^verbatim>\<open>s.includes(k)\<close>, \<^verbatim>\<open>s.split('-')[0]\<close> and \<^verbatim>\<open>s.trim()\<close>.\<close>

definition startsWith :: "jsstring \<Rightarrow> jsstring \<Rightarrow> bool" where
  "startsWith s p = prefix p s"

fun str_includes :: "jsstring \<Rightarrow> jsstring \<Rightarrow> bool" where
  "str_includes [] k = (k = [])"
| "str_includes (c # cs) k = (prefix k (c # cs) \<or> str_includes cs k)"

definition splitFirst :: "jsstring \<Rightarrow> jsstring" where
  "splitFirst s = takeWhile (\<lambda>c. c \<noteq> hyphen) s"

definition trim :: "jsstring \<Rightarrow> jsstring" where
  "trim s = rev (dropWhile isSpace (rev (dropWhile isSpace s)))"

section \<open>Global regular-expression replace and match\<close>

text \<open>
  A regular expression is represented by its anchored matcher: given the input from the
  current position on, it returns what the match produces (the replacement text for
  \<^verbatim>\<open>replace\<close>, the matched text for \<^verbatim>\<open>match\<close>) and the input after the match,
  or \<open>None\<close> when the expression does not match at this position.

  \<open>replaceAll\<close> is \<^verbatim>\<open>String.prototype.replace\<close> with a \<^verbatim>\<open>/g\<close> expression: the
  leftmost match is replaced and the scan resumes behind it; where nothing matches the
  code unit is copied. After an empty match the scan advances by one code unit.
\<close>

type_synonym matcher = "jsstring \<Rightarrow> (jsstring \<times> jsstring) option"

function replaceAll :: "matcher \<Rightarrow> jsstring \<Rightarrow> jsstring" where
  "replaceAll m [] = (case m [] of Some (r, rest) \<Rightarrow> r | None \<Rightarrow> [])"
| "replaceAll m (c # cs) =
     (case m (c # cs) of
        None \<Rightarrow> c # replaceAll m cs
      | Some (r, rest) \<Rightarrow>
          if length rest \<le> length cs then r @ replaceAll m rest
          else r @ c # replaceAll m cs)"
  by pat_completeness auto
termination
  by (relation "measure (\<lambda>(m, s). length s)") auto

text \<open>\<open>matchAll\<close> is \<^verbatim>\<open>String.prototype.match\<close> with a \<^verbatim>\<open>/g\<close> expression; the empty
  list stands for the result \<^verbatim>\<open>null\<close>.\<close>

function matchAll :: "matcher \<Rightarrow> jsstring \<Rightarrow> jsstring list" where
  "matchAll m [] = (case m [] of Some (r, rest) \<Rightarrow> [r] | None \<Rightarrow> [])"
| "matchAll m (c # cs) =
     (case m (c # cs) of
        None \<Rightarrow> matchAll m cs
      | Some (r, rest) \<Rightarrow>
          if length rest \<le> length cs then r # matchAll m rest
          else r # matchAll m cs)"
  by pat_completeness auto
termination
  by (relation "measure (\<lambda>(m, s). length s)") auto

text \<open>The first occurrence of a pattern: the text before it and the text after it.
  This is what a lazy \<^verbatim>\<open>[\s\S]*?\<close> followed by a literal finds.\<close>

fun findSub :: "jsstring \<Rightarrow> jsstring \<Rightarrow> (jsstring \<times> jsstring) option" where
  "findSub p [] = (if p = [] then Some ([], []) else None)"
| "findSub p (c # cs) =
     (if prefix p (c # cs) then Some ([], drop (length p) (c # cs))
      else (case findSub p cs of
              None \<Rightarrow> None
            | Some (before, after) \<Rightarrow> Some (c # before, after)))"

text \<open>\<^verbatim>\<open>([^d]+)d\<close> at the start of the input: the greedy run of code units other than
  \<open>d\<close>, which must not be empty and must be followed by \<open>d\<close>; the result is the run
  and the input after \<open>d\<close>. Giving characters back cannot help, since the code unit
  after a shorter run is not \<open>d\<close>.\<close>

definition runUntil :: "jschar \<Rightarrow> jsstring \<Rightarrow> (jsstring \<times> jsstring) option" where
  "runUntil d s =
     (case dropWhile (\<lambda>c. c \<noteq> d) s of
        [] \<Rightarrow> None
      | _ # rest \<Rightarrow>
          if takeWhile (\<lambda>c. c \<noteq> d) s = [] then None
          else Some (takeWhile (\<lambda>c. c \<noteq> d) s, rest))"

section \<open>The sanitization step of speak (voice.js, lines 270-278)\<close>

definition fence :: jsstring where
  "fence = [backtick, backtick, backtick]"

text \<open>
  \<^verbatim>\<open>/```(\w+)?\s*([\s\S]*?)```/g\<close> with the callback
  \<^verbatim>\<open>(match, lang, code) => ` Here is the ${lang || ''} code. End of code. `\<close>.
  Group 1 is the greedy run of word characters behind the opening fence (undefined, hence
  \<^verbatim>\<open>''\<close>, when the run is empty); the closing fence is the first one behind the run
  and the white space that follows it. The run and the white space hold no backtick, so
  giving part of them back finds no other closing fence.
\<close>

definition matchFence :: matcher where
  "matchFence s =
     (if prefix fence s then
        (case findSub fence (dropWhile isSpace (dropWhile isWord (drop 3 s))) of
           None \<Rightarrow> None
         | Some (code, rest) \<Rightarrow>
             Some (js '' Here is the '' @ takeWhile isWord (drop 3 s) @ js '' code. End of code. '', rest))
      else None)"

text \<open>\<^verbatim>\<open>/`([^`]+)`/g\<close> replaced by \<^verbatim>\<open>' code $1 '\<close>.\<close>

definition matchInlineCode :: matcher where
  "matchInlineCode s =
     (case s of
        [] \<Rightarrow> None
      | c # cs \<Rightarrow>
          if c = backtick then
            (case runUntil backtick cs of
               None \<Rightarrow> None
             | Some (body, rest) \<Rightarrow> Some (js '' code '' @ body @ js '' '', rest))
          else None)"

text \<open>\<^verbatim>\<open>/\$\$([\s\S]*?)\$\$/g\<close> replaced by \<^verbatim>\<open>' The formula is: $1 '\<close>.\<close>

definition matchBlockMath :: matcher where
  "matchBlockMath s =
     (if prefix [dollar, dollar] s then
        (case findSub [dollar, dollar] (drop 2 s) of
           None \<Rightarrow> None
         | Some (body, rest) \<Rightarrow> Some (js '' The formula is: '' @ body @ js '' '', rest))
      else None)"

text \<open>\<^verbatim>\<open>/\$([^$]+)\$/g\<close> replaced by \<^verbatim>\<open>' formula $1 '\<close>.\<close>

definition matchInlineMath :: matcher where
  "matchInlineMath s =
     (case s of
        [] \<Rightarrow> None
      | c # cs \<Rightarrow>
          if c = dollar then
            (case runUntil dollar cs of
               None \<Rightarrow> None
             | Some (body, rest) \<Rightarrow> Some (js '' formula '' @ body @ js '' '', rest))
          else None)"

text \<open>\<^verbatim>\<open>/\[([^\]]+)\]\([^\)]+\)/g\<close> replaced by \<^verbatim>\<open>'$1'\<close>.\<close>

definition matchLink :: matcher where
  "matchLink s =
     (case s of
        [] \<Rightarrow> None
      | c # cs \<Rightarrow>
          if c = lbracket then
            (case runUntil rbracket cs of
               None \<Rightarrow> None
             | Some (label, r1) \<Rightarrow>
                 (case r1 of
                    [] \<Rightarrow> None
                  | p # r2 \<Rightarrow>
                      if p = lparen then
                        (case runUntil rparen r2 of
                           None \<Rightarrow> None
                         | Some (url, r3) \<Rightarrow> Some (label, r3))
                      else None))
          else None)"

text \<open>\<^verbatim>\<open>/[*#_]/g\<close> replaced by \<^verbatim>\<open>''\<close>.\<close>

definition matchMarker :: matcher where
  "matchMarker s =
     (case s of
        [] \<Rightarrow> None
      | c # cs \<Rightarrow> if isMarker c then Some ([], cs) else None)"

text \<open>\<^verbatim>\<open>/\s+/g\<close> replaced by \<^verbatim>\<open>' '\<close>.\<close>

definition matchSpaces :: matcher where
  "matchSpaces s =
     (case s of
        [] \<Rightarrow> None
      | c # cs \<Rightarrow> if isSpace c then Some ([space], dropWhile isSpace cs) else None)"

text \<open>The value of \<^verbatim>\<open>readableText\<close>: the chain of seven replacements and the trim.\<close>

definition sanitize :: "jsstring \<Rightarrow> jsstring" where
  "sanitize text =
     trim
       (replaceAll matchSpaces
         (replaceAll matchMarker
           (replaceAll matchLink
             (replaceAll matchInlineMath
               (replaceAll matchBlockMath
                 (replaceAll matchInlineCode
                   (replaceAll matchFence text)))))))"

section \<open>Data of the controller\<close>

text \<open>A catalog entry (\<^verbatim>\<open>SpeechSynthesisVoice\<close>): the two fields the controller reads.\<close>

record voice =
  name :: jsstring
  lang :: jsstring

text \<open>
  A value that is a string where the code expects one, or some other truthy object.
  \<open>Obj\<close> arises from \<^verbatim>\<open>langMap[language]\<close> and \<^verbatim>\<open>testPhrases[...]\<close>, which also
  find the properties every object literal inherits from \<^verbatim>\<open>Object.prototype\<close>.
\<close>

datatype jsval = Str jsstring | Obj

text \<open>
  The \<^verbatim>\<open>options\<close> argument of \<^verbatim>\<open>speak\<close>. An absent key is \<open>None\<close>; for a callback
  only its presence matters, a call of it is recorded as an effect. Callbacks are taken
  to return normally and not to re-enter the controller.
\<close>

record options =
  opt_lang :: "jsstring option"
  opt_pitch :: "real option"
  opt_rate :: "real option"
  onStart :: bool
  onEnd :: bool

text \<open>The three callbacks of \<^verbatim>\<open>startListening\<close>, again by presence.\<close>

record callbacks =
  cb_onResult :: bool
  cb_onEnd :: bool
  cb_onError :: bool

text \<open>The recognition object: the handlers that \<^verbatim>\<open>startListening\<close> installs on it.\<close>

record recognizer =
  handlers :: "callbacks option"

text \<open>A \<^verbatim>\<open>SpeechSynthesisUtterance\<close> as \<^verbatim>\<open>speak\<close> fills it in.\<close>

record utterance =
  u_text :: jsstring
  u_lang :: jsstring
  u_voice :: "voice option"
  u_pitch :: real
  u_rate :: real
  u_onstart :: bool
  u_onend :: bool

datatype error = TypeError | URIError

text \<open>
  What a method does to the platform, in order. Console output is left out.
\<close>

datatype effect =
    SynthesisCancel
  | SynthesisSpeak utterance
  | AudioPause
  | AudioRewind
  | AudioPlaySilent
  | AudioPlay
  | CallOnStart
  | CallOnEnd
  | CallPlayGoogleTTS jsstring jsstring
  | Fetch jsstring jsstring
  | RecognitionStart
  | RecognitionStop
  | CallOnResult
  | CallListenEnd
  | CallListenError

text \<open>How the synchronous part of a method ends: it returns (an async method's promise
  is fulfilled), it throws (the promise is rejected), or it is suspended at an
  \<^verbatim>\<open>await\<close>.\<close>

datatype outcome = Returned | Threw error | Awaiting

text \<open>The audio element of line 16: whether it is playing.\<close>

record audioElement =
  playing :: bool

text \<open>
  The fields of \<^verbatim>\<open>VoiceController\<close> (constructor, lines 5-20, and
  \<^verbatim>\<open>defaultPitch\<close>, which does not exist before the first \<^verbatim>\<open>setVoice\<close>).
  \<open>synthesis\<close> is \<^verbatim>\<open>window.speechSynthesis\<close> as line 7 reads it: \<open>None\<close> when the
  browser has no such object, else the engine with the utterances it has been given and
  has not finished, the first of them being the one it speaks.
\<close>

record controller =
  recognition :: "recognizer option"
  synthesis :: "utterance list option"
  isListening :: bool
  selectedVoice :: "voice option"
  voices :: "voice list"
  utteranceQueue :: "utterance list"
  isSpeakingFlag :: bool
  currentLang :: jsval
  preferredGender :: jsstring
  preferredLang :: jsstring
  audio :: audioElement
  isGoogleSpeaking :: bool
  defaultPitch :: "real option"

text \<open>What the methods read from the browser: \<^verbatim>\<open>navigator.language\<close> (empty when it
  is falsy), \<^verbatim>\<open>String.prototype.toLowerCase\<close>, which follows the Unicode case
  tables, and whether \<^verbatim>\<open>window.speechSynthesis\<close> exists.\<close>

record platform =
  navigatorLanguage :: jsstring
  toLowerCase :: "jsstring \<Rightarrow> jsstring"
  speechSynthesis :: bool

section \<open>setVoice (lines 51-122)\<close>

definition langMap :: "(jsstring \<times> jsstring) list" where
  "langMap =
     [(js ''en'', js ''en-US''), (js ''es'', js ''es-ES''), (js ''hi'', js ''hi-IN''), (js ''zh-CN'', js ''zh-CN''),
      (js ''fr'', js ''fr-FR''), (js ''de'', js ''de-DE''), (js ''ja'', js ''ja-JP''), (js ''ko'', js ''ko-KR''),
      (js ''pt'', js ''pt-BR''), (js ''ru'', js ''ru-RU''), (js ''it'', js ''it-IT''), (js ''ar'', js ''ar-SA''),
      (js ''nl'', js ''nl-NL''), (js ''tr'', js ''tr-TR''), (js ''pl'', js ''pl-PL''), (js ''id'', js ''id-ID''),
      (js ''ta'', js ''ta-IN''), (js ''bn'', js ''bn-IN''), (js ''te'', js ''te-IN''), (js ''kn'', js ''kn-IN''),
      (js ''ml'', js ''ml-IN''), (js ''gu'', js ''gu-IN''), (js ''mr'', js ''mr-IN''), (js ''pa'', js ''pa-IN'')]"

text \<open>The property names of \<^verbatim>\<open>Object.prototype\<close>; each holds a function or an object.\<close>

definition objectPrototypeKeys :: "jsstring list" where
  "objectPrototypeKeys =
     [js ''constructor'', js ''toString'', js ''toLocaleString'', js ''valueOf'', js ''hasOwnProperty'',
      js ''isPrototypeOf'', js ''propertyIsEnumerable'', js ''__proto__'', js ''__defineGetter__'',
      js ''__defineSetter__'', js ''__lookupGetter__'', js ''__lookupSetter__'']"

text \<open>\<^verbatim>\<open>table[key]\<close> on an object literal: an own property, else an inherited one, else
  \<^verbatim>\<open>undefined\<close>.\<close>

definition lookupProperty :: "(jsstring \<times> jsstring) list \<Rightarrow> jsstring \<Rightarrow> jsval option" where
  "lookupProperty table key =
     (case map_of table key of
        Some v \<Rightarrow> Some (Str v)
      | None \<Rightarrow> if key \<in> set objectPrototypeKeys then Some Obj else None)"

text \<open>The value of \<^verbatim>\<open>langCode\<close> at line 69 (lines 53-67). Every value of the table is
  truthy.\<close>

definition normalizeLang :: "platform \<Rightarrow> jsstring \<Rightarrow> jsval" where
  "normalizeLang pf language =
     (case lookupProperty langMap language of
        Some v \<Rightarrow> v
      | None \<Rightarrow>
          if language = js ''auto'' then
            Str (if navigatorLanguage pf = [] then js ''en-US'' else navigatorLanguage pf)
          else Str language)"

text \<open>Line 69: \<^verbatim>\<open>this.voices.filter(v => v.lang.startsWith(langCode.split('-')[0]))\<close>.
  The callback runs once for each voice, so a \<^verbatim>\<open>langCode\<close> without a \<^verbatim>\<open>split\<close>
  method raises a TypeError exactly when the catalog is not empty.\<close>

definition filterVoices :: "jsval \<Rightarrow> voice list \<Rightarrow> error + voice list" where
  "filterVoices langCode vs =
     (case langCode of
        Str code \<Rightarrow> Inr (filter (\<lambda>v. startsWith (lang v) (splitFirst code)) vs)
      | Obj \<Rightarrow> if vs = [] then Inr [] else Inl TypeError)"

definition priorityKeywords :: "jsstring list" where
  "priorityKeywords = [js ''Natural'', js ''Google'', js ''Microsoft'', js ''Premium'', js ''Enhanced'']"

definition maleKeywords :: "jsstring list" where
  "maleKeywords =
     [js ''Male'', js ''David'', js ''Mark'', js ''Guy'', js ''Daniel'',
      js ''Pablo'', js ''Raul'', js ''Stefan'', js ''Hemant'', js ''Ravi'',
      js ''Paul'', js ''Mathieu'', js ''Jerome'',
      js ''Ichiro'', js ''Haruto'', js ''Takumi'',
      js ''Tae-Theo'', js ''Min-Ho'',
      js ''Ivan'', js ''Pavel'',
      js ''Ahmet'', js ''Mehmet'',
      js ''Budi'',
      js ''Google US English'', js ''Microsoft Stefan'', js ''Microsoft Ravi'', js ''Microsoft Hemant'']"

definition femaleKeywords :: "jsstring list" where
  "femaleKeywords =
     [js ''Female'', js ''Zira'', js ''Samantha'', js ''Google UK English Female'', js ''Microsoft Kalpana'',
      js ''Microsoft Heera'', js ''Zira'', js ''Salli'', js ''Huihui'', js ''Yaoyao'', js ''Haruka'', js ''Ayumi'']"

text \<open>\<^verbatim>\<open>keywords.some(k => v.name.includes(k))\<close>.\<close>

definition matchesAny :: "jsstring list \<Rightarrow> voice \<Rightarrow> bool" where
  "matchesAny keywords v = list_ex (\<lambda>k. str_includes (name v) k) keywords"

text \<open>\<^verbatim>\<open>a || b\<close> on values that are an object or \<^verbatim>\<open>undefined\<close>, and \<^verbatim>\<open>xs[0]\<close>.\<close>

definition orElse :: "'a option \<Rightarrow> 'a option \<Rightarrow> 'a option" where
  "orElse a b = (case a of Some x \<Rightarrow> Some x | None \<Rightarrow> b)"

definition first :: "'a list \<Rightarrow> 'a option" where
  "first xs = (case xs of [] \<Rightarrow> None | x # _ \<Rightarrow> Some x)"

text \<open>The value of \<^verbatim>\<open>bestVoice\<close> at line 109 (lines 86-107), from the filtered list.\<close>

definition bestVoice :: "jsstring \<Rightarrow> voice list \<Rightarrow> voice option" where
  "bestVoice gender vs =
     (if vs \<noteq> [] then
        (if gender = js ''female'' then
           orElse (orElse
             (find (\<lambda>v. matchesAny femaleKeywords v \<and> matchesAny priorityKeywords v) vs)
             (find (\<lambda>v. matchesAny femaleKeywords v) vs))
             (first vs)
         else
           orElse (orElse (orElse
             (find (\<lambda>v. matchesAny maleKeywords v \<and> matchesAny priorityKeywords v) vs)
             (find (\<lambda>v. matchesAny maleKeywords v) vs))
             (find (\<lambda>v. \<not> matchesAny femaleKeywords v) vs))
             (first vs))
      else None)"

text \<open>\<^verbatim>\<open>setVoice(gender, language)\<close>, both arguments given (an omitted one stands for
  \<^verbatim>\<open>'female'\<close> and \<^verbatim>\<open>'en-US'\<close>). \<open>Inl\<close> is the exception of line 69, raised
  before any field is assigned.\<close>

definition setVoice :: "platform \<Rightarrow> controller \<Rightarrow> jsstring \<Rightarrow> jsstring \<Rightarrow> error + controller" where
  "setVoice pf s gender language =
     (case filterVoices (normalizeLang pf language) (voices s) of
        Inl e \<Rightarrow> Inl e
      | Inr vs \<Rightarrow>
          Inr (s\<lparr>selectedVoice := bestVoice gender vs,
                 currentLang := normalizeLang pf language,
                 preferredGender := gender,
                 preferredLang := language,
                 defaultPitch := Some (if gender = js ''male'' then 0.85 else 1.15)\<rparr>))"

text \<open>\<^verbatim>\<open>loadVoices()\<close> (lines 43-49); \<open>vs\<close> is what \<^verbatim>\<open>getVoices()\<close> returns.
  Without a synthesis object line 44 raises a TypeError before anything is assigned. The
  catalog stays assigned when \<^verbatim>\<open>setVoice\<close> throws.\<close>

definition loadVoices :: "platform \<Rightarrow> controller \<Rightarrow> voice list \<Rightarrow> controller \<times> outcome" where
  "loadVoices pf s vs =
     (case synthesis s of
        None \<Rightarrow> (s, Threw TypeError)
      | Some queue \<Rightarrow>
          if vs \<noteq> [] then
            (case setVoice pf (s\<lparr>voices := vs\<rparr>) (preferredGender s) (preferredLang s) of
               Inl e \<Rightarrow> (s\<lparr>voices := vs\<rparr>, Threw e)
             | Inr s' \<Rightarrow> (s', Returned))
          else (s\<lparr>voices := vs\<rparr>, Returned))"

text \<open>\<^verbatim>\<open>init()\<close> (lines 22-41); \<open>supported\<close> says whether the browser has speech
  recognition. Without it the method returns at line 26 and the synthesis object is not
  looked at.\<close>

definition init :: "platform \<Rightarrow> bool \<Rightarrow> controller \<Rightarrow> voice list \<Rightarrow> controller \<times> outcome" where
  "init pf supported s vs =
     (if \<not> supported then (s, Returned)
      else loadVoices pf (s\<lparr>recognition := Some \<lparr>handlers = None\<rparr>\<rparr>) vs)"

text \<open>The constructor (lines 5-20): the object it builds, and whether it returns it or
  throws, which it does when \<^verbatim>\<open>init\<close> does.\<close>

definition constructor :: "platform \<Rightarrow> bool \<Rightarrow> voice list \<Rightarrow> controller \<times> outcome" where
  "constructor pf supported vs =
     init pf supported
       \<lparr>recognition = None,
        synthesis = (if speechSynthesis pf then Some [] else None),
        isListening = False, selectedVoice = None, voices = [],
        utteranceQueue = [], isSpeakingFlag = False, currentLang = Str (js ''en-US''),
        preferredGender = js ''female'', preferredLang = js ''en-US'',
        audio = \<lparr>playing = False\<rparr>, isGoogleSpeaking = False, defaultPitch = None\<rparr> vs"

text \<open>\<^verbatim>\<open>getAvailableVoices()\<close> (lines 141-143).\<close>

definition getAvailableVoices :: "controller \<Rightarrow> (jsstring \<times> jsstring) list" where
  "getAvailableVoices s = map (\<lambda>v. (name v, lang v)) (voices s)"

section \<open>Listening (lines 218-261)\<close>

text \<open>\<^verbatim>\<open>startListening(onResult, onEnd, onError)\<close>; \<open>startThrows\<close> says whether
  \<^verbatim>\<open>recognition.start()\<close> raises, which the method catches (lines 247-253).\<close>

definition startListening :: "bool \<Rightarrow> controller \<Rightarrow> callbacks \<Rightarrow> effect list \<times> controller" where
  "startListening startThrows s cbs =
     (case recognition s of
        None \<Rightarrow> ([], s)
      | Some r \<Rightarrow>
          if isListening s then ([], s)
          else ([RecognitionStart],
                s\<lparr>recognition := Some (r\<lparr>handlers := Some cbs\<rparr>), isListening := \<not> startThrows\<rparr>))"

definition stopListening :: "controller \<Rightarrow> effect list \<times> controller" where
  "stopListening s =
     (if recognition s \<noteq> None \<and> isListening s then ([RecognitionStop], s\<lparr>isListening := False\<rparr>)
      else ([], s))"

text \<open>The handlers of lines 221-245, run when the platform delivers \<^verbatim>\<open>result\<close>,
  \<^verbatim>\<open>end\<close> or \<^verbatim>\<open>error\<close>; before the first \<^verbatim>\<open>startListening\<close> there is none.\<close>

definition installed :: "controller \<Rightarrow> callbacks option" where
  "installed s = (case recognition s of None \<Rightarrow> None | Some r \<Rightarrow> handlers r)"

definition onresult :: "controller \<Rightarrow> effect list \<times> controller" where
  "onresult s =
     (case installed s of
        None \<Rightarrow> ([], s)
      | Some cbs \<Rightarrow> (if cb_onResult cbs then [CallOnResult] else [], s))"

definition onend :: "controller \<Rightarrow> effect list \<times> controller" where
  "onend s =
     (case installed s of
        None \<Rightarrow> ([], s)
      | Some cbs \<Rightarrow> (if cb_onEnd cbs then [CallListenEnd] else [], s\<lparr>isListening := False\<rparr>))"

definition onerror :: "controller \<Rightarrow> effect list \<times> controller" where
  "onerror s =
     (case installed s of
        None \<Rightarrow> ([], s)
      | Some cbs \<Rightarrow> (if cb_onError cbs then [CallListenError] else [], s\<lparr>isListening := False\<rparr>))"

section \<open>Speaking (lines 149-216 and 263-335)\<close>

text \<open>
  \<^verbatim>\<open>stopSpeaking()\<close> (lines 330-335). Without a synthesis object line 331 raises a
  TypeError and the three statements behind it do not run. Otherwise the engine drops
  every utterance it holds, the audio element is paused and rewound, and the flag is
  cleared. \<^verbatim>\<open>isSpeakingFlag\<close> is not assigned.
\<close>

definition stopSpeaking :: "controller \<Rightarrow> effect list \<times> controller \<times> outcome" where
  "stopSpeaking s =
     (case synthesis s of
        None \<Rightarrow> ([], s, Threw TypeError)
      | Some queue \<Rightarrow>
          ([SynthesisCancel, AudioPause, AudioRewind],
           s\<lparr>synthesis := Some [], audio := (audio s)\<lparr>playing := False\<rparr>,
              isGoogleSpeaking := False\<rparr>,
           Returned))"

text \<open>\<^verbatim>\<open>unlock()\<close> (lines 149-164) plays a silent sound on the audio element.\<close>

definition unlock :: "controller \<Rightarrow> effect list \<times> controller" where
  "unlock s = ([AudioPlaySilent], s\<lparr>audio := (audio s)\<lparr>playing := True\<rparr>\<rparr>)"

text \<open>\<^verbatim>\<open>encodeURIComponent\<close> raises a URIError on a lone surrogate and on nothing else.\<close>

definition isHighSurrogate :: "jschar \<Rightarrow> bool" where
  "isHighSurrogate c \<longleftrightarrow> 55296 \<le> c \<and> c \<le> 56319"

definition isLowSurrogate :: "jschar \<Rightarrow> bool" where
  "isLowSurrogate c \<longleftrightarrow> 56320 \<le> c \<and> c \<le> 57343"

fun wellFormed :: "jsstring \<Rightarrow> bool" where
  "wellFormed [] = True"
| "wellFormed [c] = (\<not> isHighSurrogate c \<and> \<not> isLowSurrogate c)"
| "wellFormed (c # d # cs) =
     (if isHighSurrogate c then isLowSurrogate d \<and> wellFormed cs
      else \<not> isLowSurrogate c \<and> wellFormed (d # cs))"

text \<open>
  \<^verbatim>\<open>playGoogleTTS(text, lang)\<close> up to its first \<^verbatim>\<open>await\<close> (lines 166-172). What
  follows the suspension is driven by the platform: see \<open>remoteEnded\<close>, \<open>remoteFailed\<close>
  and \<open>audioStopped\<close> below.
\<close>

definition playGoogleTTS :: "controller \<Rightarrow> jsstring \<Rightarrow> jsstring \<Rightarrow> effect list \<times> controller \<times> outcome" where
  "playGoogleTTS s text lng =
     (if wellFormed text then ([Fetch text lng], s\<lparr>isGoogleSpeaking := True\<rparr>, Awaiting)
      else ([], s\<lparr>isGoogleSpeaking := False\<rparr>, Threw URIError))"

text \<open>Line 266: \<^verbatim>\<open>options.lang || this.currentLang\<close>. The empty string is falsy.\<close>

definition effectiveLang :: "controller \<Rightarrow> options \<Rightarrow> jsval" where
  "effectiveLang s opts =
     (case opt_lang opts of
        None \<Rightarrow> currentLang s
      | Some l \<Rightarrow> if l = [] then currentLang s else Str l)"

text \<open>Line 283.\<close>

definition needsFallback :: "controller \<Rightarrow> jsstring \<Rightarrow> bool" where
  "needsFallback s baseLang \<longleftrightarrow>
     baseLang = js ''ta'' \<or> \<not> list_ex (\<lambda>v. startsWith (lang v) baseLang) (voices s)"

text \<open>\<^verbatim>\<open>/[^.!?]+[.!?]+|[^.!?]+$/g\<close>: a greedy run of code units that are no terminators,
  followed either by the greedy run of terminators behind it or by the end of the text.\<close>

definition matchSentence :: matcher where
  "matchSentence s =
     (if takeWhile (\<lambda>c. \<not> isTerminator c) s = [] then None
      else if dropWhile (\<lambda>c. \<not> isTerminator c) s = [] then Some (s, [])
      else Some (takeWhile (\<lambda>c. \<not> isTerminator c) s
                   @ takeWhile isTerminator (dropWhile (\<lambda>c. \<not> isTerminator c) s),
                 dropWhile isTerminator (dropWhile (\<lambda>c. \<not> isTerminator c) s)))"

text \<open>Line 303: \<^verbatim>\<open>readableText.match(...) || [readableText]\<close>.\<close>

definition sentencesOf :: "jsstring \<Rightarrow> jsstring list" where
  "sentencesOf readableText =
     (case matchAll matchSentence readableText of
        [] \<Rightarrow> [readableText]
      | m # ms \<Rightarrow> m # ms)"

text \<open>\<^verbatim>\<open>a || b\<close> on numbers: zero and \<^verbatim>\<open>undefined\<close> are falsy.\<close>

definition numOr :: "real option \<Rightarrow> real \<Rightarrow> real" where
  "numOr a b = (case a of None \<Rightarrow> b | Some x \<Rightarrow> if x = 0 then b else x)"

text \<open>The condition of lines 312-315.\<close>

definition pitchShift :: "platform \<Rightarrow> controller \<Rightarrow> bool" where
  "pitchShift pf s \<longleftrightarrow>
     preferredGender s = js ''male'' \<and>
     (case selectedVoice s of
        None \<Rightarrow> False
      | Some v \<Rightarrow>
          \<not> str_includes (toLowerCase pf (name v)) (js ''male'') \<and>
          \<not> str_includes (toLowerCase pf (name v)) (js ''david'') \<and>
          \<not> str_includes (toLowerCase pf (name v)) (js ''mark''))"

text \<open>The body of the \<^verbatim>\<open>forEach\<close> callback (lines 306-326) for the sentence at
  \<open>index\<close> of \<open>n\<close> sentences.\<close>

definition speakSentence :: "platform \<Rightarrow> controller \<Rightarrow> jsstring \<Rightarrow> options \<Rightarrow> nat \<Rightarrow> nat \<times> jsstring \<Rightarrow> effect list" where
  "speakSentence pf s lng opts n = (\<lambda>(index, sentence).
     if trim sentence = [] then []
     else [SynthesisSpeak
            \<lparr>u_text = trim sentence,
             u_lang = lng,
             u_voice = selectedVoice s,
             u_pitch = (if pitchShift pf s then 0.7
                        else numOr (opt_pitch opts) (numOr (defaultPitch s) 1.0)),
             u_rate = (if pitchShift pf s then 0.95 else numOr (opt_rate opts) 0.9),
             u_onstart = (index = 0 \<and> onStart opts),
             u_onend = (index + 1 = n \<and> onEnd opts)\<rparr>])"

text \<open>The native path of \<^verbatim>\<open>speak\<close> (lines 297-327).\<close>

definition selectFallbackVoice :: "controller \<Rightarrow> jsstring \<Rightarrow> controller" where
  "selectFallbackVoice s baseLang =
     (if selectedVoice s = None \<and> voices s \<noteq> [] then
        s\<lparr>selectedVoice :=
             orElse (find (\<lambda>v. startsWith (lang v) baseLang) (voices s)) (first (voices s))\<rparr>
      else s)"

text \<open>The utterances among some effects, in order: what \<^verbatim>\<open>synthesis.speak\<close> has
  been given.\<close>

definition spoken :: "effect list \<Rightarrow> utterance list" where
  "spoken es = concat (map (\<lambda>e. case e of SynthesisSpeak u \<Rightarrow> [u] | _ \<Rightarrow> []) es)"

definition sentenceEffects :: "platform \<Rightarrow> controller \<Rightarrow> jsstring \<Rightarrow> jsstring \<Rightarrow> jsstring \<Rightarrow> options \<Rightarrow> effect list" where
  "sentenceEffects pf s lng baseLang readableText opts =
     concat (map (speakSentence pf (selectFallbackVoice s baseLang) lng opts
                    (length (sentencesOf readableText)))
               (zip [0 ..< length (sentencesOf readableText)] (sentencesOf readableText)))"

text \<open>
  The engine queues what it is given. Without a synthesis object nothing can be given to
  it: line 326 has no \<^verbatim>\<open>speak\<close> method to call. In a call of \<^verbatim>\<open>speak\<close> that does
  not arise, since the native path runs only behind a \<^verbatim>\<open>stopSpeaking()\<close> that has
  returned (line 264).
\<close>

definition speakLocal :: "platform \<Rightarrow> controller \<Rightarrow> jsstring \<Rightarrow> jsstring \<Rightarrow> jsstring \<Rightarrow> options \<Rightarrow> effect list \<times> controller" where
  "speakLocal pf s lng baseLang readableText opts =
     (case synthesis s of
        None \<Rightarrow> ([], selectFallbackVoice s baseLang)
      | Some queue \<Rightarrow>
          (sentenceEffects pf s lng baseLang readableText opts,
           (selectFallbackVoice s baseLang)
             \<lparr>synthesis :=
                Some (queue @ spoken (sentenceEffects pf s lng baseLang readableText opts))\<rparr>))"

text \<open>
  \<^verbatim>\<open>speak(text, options)\<close> behind its first statement (lines 266-327), up to the first
  suspension. \<open>CallPlayGoogleTTS\<close> records that the remote path is attempted
  (line 289). A \<^verbatim>\<open>lang\<close> or \<^verbatim>\<open>text\<close> that is no string has no \<^verbatim>\<open>split\<close> or
  \<^verbatim>\<open>replace\<close> method (lines 267 and 270). On the remote path the method is suspended
  at the \<^verbatim>\<open>await\<close> of line 289 also when \<^verbatim>\<open>playGoogleTTS\<close> has thrown, since what
  it awaits is then a rejected promise.
\<close>

definition speakBody :: "platform \<Rightarrow> controller \<Rightarrow> jsval \<Rightarrow> options \<Rightarrow> effect list \<times> controller \<times> outcome" where
  "speakBody pf s text opts =
     (case effectiveLang s opts of
        Obj \<Rightarrow> ([], s, Threw TypeError)
      | Str lng \<Rightarrow>
          (case text of
             Obj \<Rightarrow> ([], s, Threw TypeError)
           | Str t \<Rightarrow>
               if needsFallback s (splitFirst lng) then
                 ((if onStart opts then [CallOnStart] else [])
                    @ [CallPlayGoogleTTS (sanitize t) (splitFirst lng)]
                    @ fst (playGoogleTTS s (sanitize t) (splitFirst lng)),
                  fst (snd (playGoogleTTS s (sanitize t) (splitFirst lng))),
                  Awaiting)
               else
                 (fst (speakLocal pf s lng (splitFirst lng) (sanitize t) opts),
                  snd (speakLocal pf s lng (splitFirst lng) (sanitize t) opts),
                  Returned)))"

text \<open>
  \<^verbatim>\<open>speak(text, options)\<close>: \<^verbatim>\<open>this.stopSpeaking()\<close> at line 264, whose exception
  ends the call, and then the rest.
\<close>

definition speak :: "platform \<Rightarrow> controller \<Rightarrow> jsval \<Rightarrow> options \<Rightarrow> effect list \<times> controller \<times> outcome" where
  "speak pf s text opts =
     (if snd (snd (stopSpeaking s)) = Returned then
        (fst (stopSpeaking s) @ fst (speakBody pf (fst (snd (stopSpeaking s))) text opts),
         snd (speakBody pf (fst (snd (stopSpeaking s))) text opts))
      else stopSpeaking s)"

text \<open>
  The continuations of a suspended \<^verbatim>\<open>speak\<close>.
  \<open>remoteEnded\<close>: the audio element fires \<^verbatim>\<open>ended\<close> (lines 186-191), the promise
  resolves and \<^verbatim>\<open>speak\<close> calls \<^verbatim>\<open>onEnd\<close> (line 290).
  \<open>remoteFailed\<close>: the request, the response, the audio element or \<^verbatim>\<open>play()\<close> fails
  (lines 173, 193-199, 204-209, 211-215); the flag is cleared, the promise is rejected
  and \<^verbatim>\<open>speak\<close> falls through to the native path with the values it captured.
  \<open>audioStopped\<close>: the element stops and a handler of an already settled promise runs.
  \<open>remoteArrived\<close>: the audio of a pending request has arrived and line 202 plays it
  (lines 175-202); nothing before line 202 looks at a flag, so this happens also when
  \<^verbatim>\<open>stopSpeaking()\<close> has run since the request was made.
\<close>

definition remoteArrived :: "controller \<Rightarrow> effect list \<times> controller" where
  "remoteArrived s = ([AudioPlay], s\<lparr>audio := (audio s)\<lparr>playing := True\<rparr>\<rparr>)"

definition remoteEnded :: "controller \<Rightarrow> options \<Rightarrow> effect list \<times> controller" where
  "remoteEnded s opts =
     (if onEnd opts then [CallOnEnd] else [],
      s\<lparr>audio := (audio s)\<lparr>playing := False\<rparr>, isGoogleSpeaking := False\<rparr>)"

definition remoteFailed :: "platform \<Rightarrow> controller \<Rightarrow> jsstring \<Rightarrow> jsstring \<Rightarrow> options \<Rightarrow> effect list \<times> controller" where
  "remoteFailed pf s lng readableText opts =
     speakLocal pf (s\<lparr>isGoogleSpeaking := False\<rparr>) lng (splitFirst lng) readableText opts"

definition audioStopped :: "controller \<Rightarrow> effect list \<times> controller" where
  "audioStopped s = ([], s\<lparr>audio := (audio s)\<lparr>playing := False\<rparr>, isGoogleSpeaking := False\<rparr>)"

text \<open>The engine starts the utterance at the head of its queue, or finishes it, and runs
  the handler the utterance carries (lines 323-324).\<close>

definition utteranceStarted :: "controller \<Rightarrow> effect list \<times> controller" where
  "utteranceStarted s =
     (case synthesis s of
        Some (u # queue) \<Rightarrow> (if u_onstart u then [CallOnStart] else [], s)
      | _ \<Rightarrow> ([], s))"

definition utteranceEnded :: "controller \<Rightarrow> effect list \<times> controller" where
  "utteranceEnded s =
     (case synthesis s of
        Some (u # queue) \<Rightarrow> (if u_onend u then [CallOnEnd] else [], s\<lparr>synthesis := Some queue\<rparr>)
      | _ \<Rightarrow> ([], s))"

text \<open>\<^verbatim>\<open>testVoice()\<close> (lines 124-139).\<close>

definition testPhrases :: "(jsstring \<times> jsstring) list" where
  "testPhrases =
     [(js ''en'', js ''Hello, I am Astra. Testing my voice output.''),
      (js ''hi'', [2344, 2350, 2360, 2381, 2340, 2375, 44, 32, 2350, 2376, 2306, 32, 2319, 2360,
                   2381, 2335, 2381, 2352, 2366, 32, 2361, 2370, 2305, 2404, 32, 2350, 2375, 2352,
                   2368, 32, 2310, 2357, 2366, 2332, 2364, 32, 2325, 2366, 32, 2346, 2352, 2368,
                   2325, 2381, 2359, 2339, 32, 2325, 2352, 32, 2352, 2361, 2366, 32, 2361, 2370,
                   2305, 2404]),
      (js ''ta'', [2997, 2979, 2965, 3021, 2965, 2990, 3021, 44, 32, 2984, 3006, 2985, 3021, 32,
                   2949, 3000, 3021, 2975, 3021, 2992, 3006, 46, 32, 2958, 2985, 2980, 3009, 32,
                   2965, 3009, 2992, 2994, 3016, 2970, 3021, 32, 2970, 3019, 2980, 3007, 2965,
                   3021, 2965, 3007, 2993, 3015, 2985, 3021, 46]),
      (js ''es'', js ''Hola, soy Astra. Probando mi salida de voz.''),
      (js ''fr'', js ''Bonjour, je suis Astra. Test de ma sortie vocale.''),
      (js ''de'', js ''Hallo, ich bin Astra. Teste meine Sprachausgabe.''),
      (js ''zh-CN'', [20320, 22909, 65292, 25105, 26159, 32, 65, 115, 116, 114, 97, 12290, 27979,
                      35797, 25105, 30340, 35821, 38899, 36755, 20986, 12290]),
      (js ''ja'', [12371, 12435, 12395, 12385, 12399, 12289, 12450, 12473, 12488, 12521, 12391,
                   12377, 12290, 38899, 22768, 20986, 21147, 12434, 12486, 12473, 12488, 12375,
                   12390, 12356, 12414, 12377, 12290]),
      (js ''auto'', js ''Hello, testing system default voice.'')]"

definition noOptions :: options where
  "noOptions = \<lparr>opt_lang = None, opt_pitch = None, opt_rate = None, onStart = False, onEnd = False\<rparr>"

definition testVoice :: "platform \<Rightarrow> controller \<Rightarrow> effect list \<times> controller \<times> outcome" where
  "testVoice pf s =
     speak pf s
       (case lookupProperty testPhrases (preferredLang s) of
          Some phrase \<Rightarrow> phrase
        | None \<Rightarrow> Str (js ''Hello, I am Astra. Testing my voice output.''))
       noOptions"

section \<open>Reachable states\<close>

text \<open>
  One action is one call of a public method or one notification of the platform. The
  platform's notifications are enabled in every state and carry any captured values, which
  admits more runs than a browser produces; a property of all reachable states of this
  relation holds of all states the program reaches. One notification is tied to the
  state: a call of \<^verbatim>\<open>speak\<close> is suspended only behind a \<^verbatim>\<open>stopSpeaking()\<close> that has
  returned, so its fall through to the native path needs the synthesis object.
\<close>

datatype action =
    Init bool "voice list"
  | LoadVoices "voice list"
  | SetVoice jsstring jsstring
  | TestVoice
  | GetAvailableVoices
  | Unlock
  | PlayGoogleTTS jsstring jsstring
  | StartListening bool callbacks
  | StopListening
  | Speak jsval options
  | StopSpeaking
  | OnResult
  | OnEnd
  | OnError
  | RemoteArrived
  | RemoteEnded options
  | RemoteFailed jsstring jsstring options
  | AudioStopped
  | UtteranceStarted
  | UtteranceEnded

fun step :: "platform \<Rightarrow> action \<Rightarrow> controller \<Rightarrow> controller" where
  "step pf (Init supported vs) s = fst (init pf supported s vs)"
| "step pf (LoadVoices vs) s = fst (loadVoices pf s vs)"
| "step pf (SetVoice gender language) s =
     (case setVoice pf s gender language of Inl e \<Rightarrow> s | Inr s' \<Rightarrow> s')"
| "step pf TestVoice s = fst (snd (testVoice pf s))"
| "step pf GetAvailableVoices s = s"
| "step pf Unlock s = snd (unlock s)"
| "step pf (PlayGoogleTTS text lng) s = fst (snd (playGoogleTTS s text lng))"
| "step pf (StartListening startThrows cbs) s = snd (startListening startThrows s cbs)"
| "step pf StopListening s = snd (stopListening s)"
| "step pf (Speak text opts) s = fst (snd (speak pf s text opts))"
| "step pf StopSpeaking s = fst (snd (stopSpeaking s))"
| "step pf OnResult s = snd (onresult s)"
| "step pf OnEnd s = snd (onend s)"
| "step pf OnError s = snd (onerror s)"
| "step pf RemoteArrived s = snd (remoteArrived s)"
| "step pf (RemoteEnded opts) s = snd (remoteEnded s opts)"
| "step pf (RemoteFailed lng readableText opts) s =
     (if synthesis s = None then s else snd (remoteFailed pf s lng readableText opts))"
| "step pf AudioStopped s = snd (audioStopped s)"
| "step pf UtteranceStarted s = snd (utteranceStarted s)"
| "step pf UtteranceEnded s = snd (utteranceEnded s)"

text \<open>A controller exists when its constructor has returned.\<close>

inductive reachable :: "platform \<Rightarrow> controller \<Rightarrow> bool" for pf :: platform where
  constructed:
    "snd (constructor pf supported vs) = Returned \<Longrightarrow> reachable pf (fst (constructor pf supported vs))"
| stepped: "reachable pf s \<Longrightarrow> reachable pf (step pf a s)"

text \<open>What every action leaves as it is: \<^verbatim>\<open>isSpeakingFlag\<close>, whether there is a
  synthesis object, and the catalog where there is none.\<close>

definition frame :: "controller \<Rightarrow> controller \<Rightarrow> bool" where
  "frame s s' \<longleftrightarrow>
     isSpeakingFlag s' = isSpeakingFlag s \<and>
     (synthesis s' = None \<longleftrightarrow> synthesis s = None) \<and>
     (synthesis s = None \<longrightarrow> voices s' = voices s)"

section \<open>Example inputs\<close>

text \<open>A browser whose locale is \<^verbatim>\<open>en-US\<close>; its lower-casing is given on ASCII letters,
  which is all the examples use.\<close>

definition asciiLowerCase :: "jsstring \<Rightarrow> jsstring" where
  "asciiLowerCase s = map (\<lambda>c. if 65 \<le> c \<and> c \<le> 90 then c + 32 else c) s"

definition browser :: platform where
  "browser =
     \<lparr>navigatorLanguage = js ''en-US'', toLowerCase = asciiLowerCase, speechSynthesis = True\<rparr>"

text \<open>The voice named "Google francais", its c with cedilla being the code unit 231,
  with the language tag \<^verbatim>\<open>fr-FR\<close>, and a controller constructed in a browser whose
  catalog holds only this voice.\<close>

definition googleFrancais :: voice where
  "googleFrancais = \<lparr>name = js ''Google fran'' @ [231] @ js ''ais'', lang = js ''fr-FR''\<rparr>"

definition frenchOnly :: controller where
  "frenchOnly = fst (constructor browser True [googleFrancais])"



text \<open>Options with both callbacks, and the same with \<^verbatim>\<open>lang: 'ta'\<close>.\<close>

definition withCallbacks :: options where
  "withCallbacks = noOptions\<lparr>onStart := True, onEnd := True\<rparr>"


text \<open>The French-only controller after \<^verbatim>\<open>speak("Hello", ...)\<close>, which goes to the remote
  service, and the English-only controller after \<^verbatim>\<open>speak("Hello.", ...)\<close>, which is
  spoken by the browser.\<close>

definition remoteSpeaking :: controller where
  "remoteSpeaking = step browser (Speak (Str (js ''Hello'')) withCallbacks) frenchOnly"



text \<open>A controller without voices that is listening.\<close>

definition allCallbacks :: callbacks where
  "allCallbacks = \<lparr>cb_onResult = True, cb_onEnd = True, cb_onError = True\<rparr>"

definition listening :: controller where
  "listening = snd (startListening False (fst (constructor browser True [])) allCallbacks)"

text \<open>A browser that has neither speech recognition nor speech synthesis, the controller
  constructed there, and that controller while the audio of a direct call of
  \<^verbatim>\<open>playGoogleTTS\<close> is playing.\<close>

definition bareBrowser :: platform where
  "bareBrowser = browser\<lparr>speechSynthesis := False\<rparr>"



section \<open>White space in normal form\<close>

text \<open>A text in which every white-space code unit is a single space that is not followed
  by white space: the shape of every result of \<^verbatim>\<open>replace(/\s+/g, ' ')\<close>.\<close>

fun spaced :: "jsstring \<Rightarrow> bool" where
  "spaced [] = True"
| "spaced [c] = (isSpace c \<longrightarrow> c = space)"
| "spaced (c # d # r) = ((isSpace c \<longrightarrow> c = space \<and> \<not> isSpace d) \<and> spaced (d # r))"

section \<open>The sanitizer\<close>

declare replaceAll.simps [simp del] matchAll.simps [simp del]

lemma trim_Nil [simp]: "trim [] = []"
  by (simp add: trim_def)

lemma replaceAll_inert:
  assumes "\<And>t. set t \<subseteq> set s \<Longrightarrow> m t = None"
  shows "replaceAll m s = s"
  using assms
proof (induction s)
  case Nil
  then show ?case by (simp add: replaceAll.simps)
next
  case (Cons c cs)
  have "m (c # cs) = None" by (rule Cons.prems) simp
  moreover have "replaceAll m cs = cs"
  proof (rule Cons.IH)
    fix t assume "set t \<subseteq> set cs"
    then have "set t \<subseteq> set (c # cs)" by auto
    then show "m t = None" by (rule Cons.prems)
  qed
  ultimately show ?case by (simp add: replaceAll.simps)
qed

lemma matchFence_inert: "backtick \<notin> set t \<Longrightarrow> matchFence t = None"
  by (auto simp: matchFence_def fence_def prefix_def)

lemma matchInlineCode_inert: "backtick \<notin> set t \<Longrightarrow> matchInlineCode t = None"
  by (auto simp: matchInlineCode_def split: list.splits)

lemma matchBlockMath_inert: "dollar \<notin> set t \<Longrightarrow> matchBlockMath t = None"
  by (auto simp: matchBlockMath_def prefix_def)

lemma matchInlineMath_inert: "dollar \<notin> set t \<Longrightarrow> matchInlineMath t = None"
  by (auto simp: matchInlineMath_def split: list.splits)

lemma matchLink_inert: "lbracket \<notin> set t \<Longrightarrow> matchLink t = None"
  by (auto simp: matchLink_def split: list.splits)

lemma matchMarker_inert: "\<forall>c \<in> set t. \<not> isMarker c \<Longrightarrow> matchMarker t = None"
  by (auto simp: matchMarker_def split: list.splits)

lemma stripMarkers_filter: "replaceAll matchMarker s = filter (\<lambda>c. \<not> isMarker c) s"
  by (induction s) (simp_all add: matchMarker_def replaceAll.simps)

lemma collapse_Nil [simp]: "replaceAll matchSpaces [] = []"
  by (simp add: matchSpaces_def replaceAll.simps)

lemma collapse_Cons:
  "replaceAll matchSpaces (c # cs) =
     (if isSpace c then space # replaceAll matchSpaces (dropWhile isSpace cs)
      else c # replaceAll matchSpaces cs)"
  by (simp add: matchSpaces_def length_dropWhile_le replaceAll.simps)

lemma collapse_set: "set (replaceAll matchSpaces s) \<subseteq> insert space (set s)"
proof (induction s rule: length_induct)
  case (1 s)
  show ?case
  proof (cases s)
    case Nil
    then show ?thesis by simp
  next
    case (Cons c cs)
    have a: "set (replaceAll matchSpaces cs) \<subseteq> insert space (set cs)"
      using 1 Cons by simp
    have "length (dropWhile isSpace cs) < length s"
      using Cons length_dropWhile_le [of isSpace cs] by simp
    then have "set (replaceAll matchSpaces (dropWhile isSpace cs))
        \<subseteq> insert space (set (dropWhile isSpace cs))"
      using 1 by blast
    then have b: "set (replaceAll matchSpaces (dropWhile isSpace cs)) \<subseteq> insert space (set cs)"
      using set_dropWhileD [of _ isSpace cs] by blast
    show ?thesis
      using a b Cons by (auto simp: collapse_Cons)
  qed
qed

lemma collapse_hd:
  "s \<noteq> [] \<Longrightarrow> \<not> isSpace (hd s) \<Longrightarrow>
   replaceAll matchSpaces s \<noteq> [] \<and> hd (replaceAll matchSpaces s) = hd s"
  by (cases s) (simp_all add: collapse_Cons)

lemma spaced_Cons:
  "spaced (c # s) \<longleftrightarrow> (isSpace c \<longrightarrow> c = space \<and> (s = [] \<or> \<not> isSpace (hd s))) \<and> spaced s"
  by (cases s) auto

lemma spaced_collapse: "spaced (replaceAll matchSpaces s)"
proof (induction s rule: length_induct)
  case (1 s)
  show ?case
  proof (cases s)
    case Nil
    then show ?thesis by simp
  next
    case (Cons c cs)
    show ?thesis
    proof (cases "isSpace c")
      case True
      let ?r = "dropWhile isSpace cs"
      have "length ?r < length s"
        using Cons length_dropWhile_le [of isSpace cs] by simp
      then have sp: "spaced (replaceAll matchSpaces ?r)" using 1 by blast
      have "replaceAll matchSpaces ?r = [] \<or> \<not> isSpace (hd (replaceAll matchSpaces ?r))"
      proof (cases "?r = []")
        case True
        have "replaceAll matchSpaces [] = []" by (rule collapse_Nil)
        then show ?thesis unfolding True by (rule disjI1)
      next
        case False
        then have "\<not> isSpace (hd ?r)" by (rule hd_dropWhile)
        with False show ?thesis using collapse_hd [of ?r] by simp
      qed
      with sp True Cons show ?thesis
        by (simp add: collapse_Cons spaced_Cons)
    next
      case False
      have "spaced (replaceAll matchSpaces cs)" using 1 Cons by simp
      with False Cons show ?thesis
        by (simp add: collapse_Cons spaced_Cons)
    qed
  qed
qed

lemma collapse_spaced: "spaced s \<Longrightarrow> replaceAll matchSpaces s = s"
proof (induction s)
  case Nil
  then show ?case by simp
next
  case (Cons c cs)
  then have cs: "replaceAll matchSpaces cs = cs"
    by (simp add: spaced_Cons)
  show ?case
  proof (cases "isSpace c")
    case True
    with Cons.prems have "c = space" and "cs = [] \<or> \<not> isSpace (hd cs)"
      by (simp_all add: spaced_Cons)
    then have "dropWhile isSpace cs = cs"
      by (simp add: dropWhile_eq_self_iff)
    with True \<open>c = space\<close> cs show ?thesis
      by (simp add: collapse_Cons)
  next
    case False
    with cs show ?thesis by (simp add: collapse_Cons)
  qed
qed

lemma spaced_append2: "spaced (xs @ ys) \<Longrightarrow> spaced ys"
  by (induction xs) (auto simp: spaced_Cons)

lemma spaced_append1: "spaced (xs @ ys) \<Longrightarrow> spaced xs"
proof (induction xs)
  case Nil
  then show ?case by simp
next
  case (Cons x xs)
  then show ?case
    by (cases xs) (auto simp: spaced_Cons)
qed

lemma trim_prefix:
  "trim s @ rev (takeWhile isSpace (rev (dropWhile isSpace s))) = dropWhile isSpace s"
proof -
  have "trim s @ rev (takeWhile isSpace (rev (dropWhile isSpace s))) =
      rev (takeWhile isSpace (rev (dropWhile isSpace s))
             @ dropWhile isSpace (rev (dropWhile isSpace s)))"
    unfolding trim_def by (simp only: rev_append)
  then show ?thesis
    by (simp only: takeWhile_dropWhile_id rev_rev_ident)
qed

lemma spaced_trim: "spaced s \<Longrightarrow> spaced (trim s)"
proof -
  assume "spaced s"
  then have "spaced (takeWhile isSpace s @ dropWhile isSpace s)" by simp
  then have "spaced (dropWhile isSpace s)" by (rule spaced_append2)
  then have "spaced (trim s @ rev (takeWhile isSpace (rev (dropWhile isSpace s))))"
    by (simp only: trim_prefix)
  then show ?thesis by (rule spaced_append1)
qed

lemma trim_hd: "trim s \<noteq> [] \<Longrightarrow> \<not> isSpace (hd (trim s))"
proof -
  assume ne: "trim s \<noteq> []"
  have z: "dropWhile isSpace s \<noteq> []"
  proof
    assume e: "dropWhile isSpace s = []"
    have "trim s = []" unfolding trim_def e by simp
    with ne show False by simp
  qed
  have "hd (dropWhile isSpace s) = hd (trim s)"
    using ne trim_prefix [of s] by (metis hd_append2)
  with z show ?thesis using hd_dropWhile [of isSpace s] by simp
qed

lemma trim_trim: "trim (trim s) = trim s"
proof (cases "trim s = []")
  case True
  then show ?thesis by simp
next
  case False
  then have a: "dropWhile isSpace (trim s) = trim s"
    using trim_hd [of s] by (simp add: dropWhile_eq_self_iff)
  have b: "rev (trim s) = dropWhile isSpace (rev (dropWhile isSpace s))"
    by (simp add: trim_def)
  have "trim (trim s) = rev (dropWhile isSpace (rev (dropWhile isSpace (trim s))))"
    by (simp only: trim_def [of "trim s"])
  also have "\<dots> = rev (dropWhile isSpace (rev (trim s)))"
    by (simp only: a)
  also have "\<dots> = rev (dropWhile isSpace (dropWhile isSpace (rev (dropWhile isSpace s))))"
    by (simp only: b)
  also have "\<dots> = trim s"
    by (simp add: trim_def)
  finally show ?thesis .
qed

lemma trim_set: "set (trim s) \<subseteq> set s"
  by (auto simp: trim_def dest!: set_dropWhileD)

lemma space_not_marker: "\<not> isMarker space"
  by (simp add: isMarker_def space_def)

lemma sanitize_no_marker: "c \<in> set (sanitize s) \<Longrightarrow> \<not> isMarker c"
proof -
  assume "c \<in> set (sanitize s)"
  then have "c \<in> insert space (set (replaceAll matchMarker
      (replaceAll matchLink (replaceAll matchInlineMath (replaceAll matchBlockMath
        (replaceAll matchInlineCode (replaceAll matchFence s)))))))"
    unfolding sanitize_def using trim_set collapse_set by blast
  then show ?thesis
    by (auto simp: stripMarkers_filter space_not_marker)
qed

lemma sanitize_spaced: "spaced (sanitize s)"
  unfolding sanitize_def by (intro spaced_trim spaced_collapse)

lemma sanitize_trimmed: "trim (sanitize s) = sanitize s"
  unfolding sanitize_def by (rule trim_trim)

lemmas sanitize_eval = sanitize_def js_def matchFence_def matchInlineCode_def matchBlockMath_def
  matchInlineMath_def matchLink_def matchMarker_def matchSpaces_def isMarker_def isSpace_def
  isWord_def runUntil_def trim_def replaceAll.simps fence_def backtick_def dollar_def lbracket_def
  rbracket_def lparen_def rparen_def space_def

lemma sanitize_link_star: "sanitize (js ''[a]*(b)'') = js ''[a](b)''"
  by (simp add: sanitize_eval)

lemma sanitize_link: "sanitize (js ''[a](b)'') = js ''a''"
  by (simp add: sanitize_eval)

lemma sanitize_inline_code: "sanitize (js ''Use `foo()` to run.'') = js ''Use code foo() to run.''"
  by (simp add: sanitize_eval)


lemma sanitize_Hello: "sanitize (js ''Hello'') = js ''Hello''"
  by (simp add: sanitize_eval)


text \<open>
  C7. The claim: the sanitization step is total and free of side effects, and
  \<^verbatim>\<open>sanitize(sanitize(s)) = sanitize(s)\<close> for every string \<open>s\<close>.

  The step is a terminating pure function, but its result can hold markup again: the
  markers are removed after the links are, so \<^verbatim>\<open>[a]*(b)\<close> becomes \<^verbatim>\<open>[a](b)\<close>,
  which a second pass turns into \<^verbatim>\<open>a\<close>.
\<close>

theorem sanitize_not_idempotent_counterexample:
  "sanitize (sanitize (js ''[a]*(b)'')) \<noteq> sanitize (js ''[a]*(b)'')"
  by (simp add: sanitize_link_star sanitize_link) (simp add: js_def)

text \<open>
  C7, as the code has it: the sanitization step is total and free of side effects, and it
  is idempotent on its own output whenever that output is plain text, that is, holds no
  backtick, no dollar sign and no opening square bracket.
\<close>

theorem sanitize_idempotent_on_plain_output:
  assumes "backtick \<notin> set (sanitize s)" and "dollar \<notin> set (sanitize s)"
    and "lbracket \<notin> set (sanitize s)"
  shows "sanitize (sanitize s) = sanitize s"
proof -
  let ?t = "sanitize s"
  have 1: "replaceAll matchFence ?t = ?t"
    using assms(1) by (intro replaceAll_inert matchFence_inert) auto
  have 2: "replaceAll matchInlineCode ?t = ?t"
    using assms(1) by (intro replaceAll_inert matchInlineCode_inert) auto
  have 3: "replaceAll matchBlockMath ?t = ?t"
    using assms(2) by (intro replaceAll_inert matchBlockMath_inert) auto
  have 4: "replaceAll matchInlineMath ?t = ?t"
    using assms(2) by (intro replaceAll_inert matchInlineMath_inert) auto
  have 5: "replaceAll matchLink ?t = ?t"
    using assms(3) by (intro replaceAll_inert matchLink_inert) auto
  have 6: "replaceAll matchMarker ?t = ?t"
    using sanitize_no_marker [of _ s] by (intro replaceAll_inert matchMarker_inert) auto
  have 7: "replaceAll matchSpaces ?t = ?t"
    by (rule collapse_spaced) (rule sanitize_spaced)
  have "sanitize ?t = trim ?t"
    by (subst sanitize_def) (simp only: 1 2 3 4 5 6 7)
  then show ?thesis by (simp add: sanitize_trimmed)
qed

theorem sanitize_idempotent_on_plain_output_witness:
  "backtick \<notin> set (sanitize (js ''Use `foo()` to run.'')) \<and>
   dollar \<notin> set (sanitize (js ''Use `foo()` to run.'')) \<and>
   lbracket \<notin> set (sanitize (js ''Use `foo()` to run.'')) \<and>
   sanitize (sanitize (js ''Use `foo()` to run.'')) = js ''Use code foo() to run.''"
proof -
  have a: "backtick \<notin> set (sanitize (js ''Use `foo()` to run.''))"
    by (simp add: sanitize_inline_code) (simp add: js_def backtick_def)
  have b: "dollar \<notin> set (sanitize (js ''Use `foo()` to run.''))"
    by (simp add: sanitize_inline_code) (simp add: js_def dollar_def)
  have c: "lbracket \<notin> set (sanitize (js ''Use `foo()` to run.''))"
    by (simp add: sanitize_inline_code) (simp add: js_def lbracket_def)
  show ?thesis
    using sanitize_idempotent_on_plain_output [OF a b c] a b c
    by (simp add: sanitize_inline_code)
qed

section \<open>Voice selection\<close>

lemma orElse_simps [simp]: "orElse None b = b" "orElse (Some x) b = Some x"
  by (simp_all add: orElse_def)

lemma first_simps [simp]: "first [] = None" "first (x # xs) = Some x"
  by (simp_all add: first_def)

lemma find_in_set: "find P xs = Some x \<Longrightarrow> x \<in> set xs"
  by (induction xs) (auto split: if_splits)

lemma first_in_set: "first xs = Some x \<Longrightarrow> x \<in> set xs"
  by (cases xs) auto

lemma orElse_SomeE: "orElse a b = Some x \<Longrightarrow> a = Some x \<or> b = Some x"
  by (cases a) auto

lemma bestVoice_in_set: "bestVoice gender vs = Some v \<Longrightarrow> v \<in> set vs"
  unfolding bestVoice_def
  by (auto split: if_splits dest!: orElse_SomeE dest: find_in_set first_in_set)

lemma bestVoice_None: "bestVoice gender vs = None \<longleftrightarrow> vs = []"
  unfolding bestVoice_def
  by (cases vs) (auto simp: orElse_def split: option.splits)

lemma setVoice_Str:
  "normalizeLang pf language = Str code \<Longrightarrow>
   setVoice pf s gender language =
     Inr (s\<lparr>selectedVoice :=
              bestVoice gender (filter (\<lambda>v. startsWith (lang v) (splitFirst code)) (voices s)),
            currentLang := Str code, preferredGender := gender, preferredLang := language,
            defaultPitch := Some (if gender = js ''male'' then 0.85 else 1.15)\<rparr>)"
  by (simp add: setVoice_def filterVoices_def)

lemma normalizeLang_fr: "normalizeLang pf (js ''fr'') = Str (js ''fr-FR'')"
  by (simp add: normalizeLang_def lookupProperty_def langMap_def js_def)

lemma normalizeLang_de: "normalizeLang pf (js ''de'') = Str (js ''de-DE'')"
  by (simp add: normalizeLang_def lookupProperty_def langMap_def js_def)

lemma normalizeLang_en_US: "normalizeLang pf (js ''en-US'') = Str (js ''en-US'')"
  by (simp add: normalizeLang_def lookupProperty_def langMap_def objectPrototypeKeys_def js_def)

lemma googleFrancais_not_male: "\<not> matchesAny maleKeywords googleFrancais"
  by (simp add: matchesAny_def maleKeywords_def googleFrancais_def js_def)

lemma googleFrancais_not_female: "\<not> matchesAny femaleKeywords googleFrancais"
  by (simp add: matchesAny_def femaleKeywords_def googleFrancais_def js_def)

lemma googleFrancais_fr: "startsWith (lang googleFrancais) (splitFirst (js ''fr-FR''))"
  by (simp add: startsWith_def splitFirst_def hyphen_def googleFrancais_def js_def)

lemma googleFrancais_not_de: "\<not> startsWith (lang googleFrancais) (splitFirst (js ''de-DE''))"
  by (simp add: startsWith_def splitFirst_def hyphen_def googleFrancais_def js_def)

lemma googleFrancais_not_en: "\<not> startsWith (lang googleFrancais) (splitFirst (js ''en-US''))"
  by (simp add: startsWith_def splitFirst_def hyphen_def googleFrancais_def js_def)

lemma bestVoice_Nil: "bestVoice gender [] = None"
  by (simp add: bestVoice_def)

lemma female_not_male: "js ''female'' \<noteq> js ''male''"
  by (simp add: js_def)

lemma browser_simps [simp]:
  "speechSynthesis browser" "\<not> speechSynthesis bareBrowser"
  by (simp_all add: browser_def bareBrowser_def)

lemma frenchOnly_eq:
  "frenchOnly =
     \<lparr>recognition = Some \<lparr>handlers = None\<rparr>, synthesis = Some [], isListening = False,
      selectedVoice = None, voices = [googleFrancais], utteranceQueue = [],
      isSpeakingFlag = False, currentLang = Str (js ''en-US''), preferredGender = js ''female'',
      preferredLang = js ''en-US'', audio = \<lparr>playing = False\<rparr>, isGoogleSpeaking = False,
      defaultPitch = Some 1.15\<rparr>"
  by (simp add: frenchOnly_def constructor_def init_def loadVoices_def
      setVoice_Str [OF normalizeLang_en_US] googleFrancais_not_en bestVoice_Nil female_not_male)

lemma withCallbacks_simps:
  "opt_lang withCallbacks = None" "onStart withCallbacks" "onEnd withCallbacks"
  by (simp_all add: withCallbacks_def noOptions_def)




lemma splitFirst_en_US: "splitFirst (js ''en-US'') = js ''en''"
  by (simp add: splitFirst_def hyphen_def js_def)


text \<open>
  C3. The claim: when the catalog is not empty and none of its voices has a language tag
  that starts with the primary subtag of the normalized tag, \<^verbatim>\<open>setVoice\<close> selects the
  first entry of the whole catalog, and the selected voice is absent only when the catalog
  is empty.

  The code does otherwise: \<^verbatim>\<open>bestVoice\<close> stays \<^verbatim>\<open>null\<close> when the filtered list is
  empty (lines 86-88, 109). With the catalog holding only a French voice,
  \<^verbatim>\<open>setVoice('female', 'de')\<close> leaves no voice selected.
\<close>

theorem setVoice_no_match_counterexample:
  "voices frenchOnly = [googleFrancais] \<and>
   \<not> startsWith (lang googleFrancais) (splitFirst (js ''de-DE'')) \<and>
   setVoice browser frenchOnly (js ''female'') (js ''de'') =
     Inr (frenchOnly\<lparr>selectedVoice := None, currentLang := Str (js ''de-DE''),
            preferredGender := js ''female'', preferredLang := js ''de'',
            defaultPitch := Some 1.15\<rparr>)"
  by (simp add: setVoice_Str [OF normalizeLang_de] googleFrancais_not_de bestVoice_Nil
      frenchOnly_eq female_not_male)

text \<open>
  C3, as the code has it: for a language that normalizes to a string, \<^verbatim>\<open>setVoice\<close>
  returns, and the selected voice is absent exactly when no voice of the catalog has a
  language tag that starts with the primary subtag of the normalized tag, be the catalog
  empty or not.
\<close>

theorem setVoice_absent_iff_no_match:
  assumes "normalizeLang pf language = Str code"
  shows "\<exists>s'. setVoice pf s gender language = Inr s' \<and>
          (selectedVoice s' = None \<longleftrightarrow>
             filter (\<lambda>v. startsWith (lang v) (splitFirst code)) (voices s) = [])"
  using assms by (simp add: setVoice_Str bestVoice_None)

theorem setVoice_absent_iff_no_match_witness:
  "normalizeLang browser (js ''de'') = Str (js ''de-DE'') \<and>
   filter (\<lambda>v. startsWith (lang v) (splitFirst (js ''de-DE''))) (voices frenchOnly) = [] \<and>
   (\<exists>s'. setVoice browser frenchOnly (js ''female'') (js ''de'') = Inr s' \<and> selectedVoice s' = None)"
  using setVoice_absent_iff_no_match [OF normalizeLang_de, of browser frenchOnly "js ''female''"]
  by (auto simp: normalizeLang_de frenchOnly_eq googleFrancais_not_de)

text \<open>
  C4. Whenever some voice of the catalog has a language tag that starts with the primary
  subtag of the normalized tag, \<^verbatim>\<open>setVoice\<close> selects a voice of the catalog whose
  language tag starts with that subtag.
\<close>

theorem setVoice_selects_matching:
  assumes "normalizeLang pf language = Str code"
    and "filter (\<lambda>v. startsWith (lang v) (splitFirst code)) (voices s) \<noteq> []"
  shows "\<exists>s' v. setVoice pf s gender language = Inr s' \<and> selectedVoice s' = Some v \<and>
           v \<in> set (voices s) \<and> startsWith (lang v) (splitFirst code)"
proof -
  let ?vs = "filter (\<lambda>v. startsWith (lang v) (splitFirst code)) (voices s)"
  from assms(2) obtain v where v: "bestVoice gender ?vs = Some v"
    using bestVoice_None [of gender ?vs] by (cases "bestVoice gender ?vs") auto
  then have "v \<in> set ?vs" by (rule bestVoice_in_set)
  with v assms(1) show ?thesis by (simp add: setVoice_Str)
qed

theorem setVoice_selects_matching_witness:
  "normalizeLang browser (js ''fr'') = Str (js ''fr-FR'') \<and>
   filter (\<lambda>v. startsWith (lang v) (splitFirst (js ''fr-FR''))) (voices frenchOnly) \<noteq> [] \<and>
   (\<exists>s' v. setVoice browser frenchOnly (js ''female'') (js ''fr'') = Inr s' \<and>
      selectedVoice s' = Some v \<and> v \<in> set (voices frenchOnly) \<and>
      startsWith (lang v) (splitFirst (js ''fr-FR'')))"
proof -
  have h: "filter (\<lambda>v. startsWith (lang v) (splitFirst (js ''fr-FR''))) (voices frenchOnly) \<noteq> []"
    by (simp add: frenchOnly_eq googleFrancais_fr)
  show ?thesis
    using setVoice_selects_matching [OF normalizeLang_fr h, of browser "js ''female''"] h
    by (simp add: normalizeLang_fr)
qed

text \<open>
  C6. On a catalog whose only entry is the voice \<open>googleFrancais\<close>,
  \<^verbatim>\<open>setVoice('male', 'fr')\<close> selects that voice and sets \<^verbatim>\<open>defaultPitch\<close> to 0.85;
  the name holds no male keyword and no female keyword, so the voice is found by the
  third rule of the male branch (line 104).
\<close>

theorem setVoice_male_fr:
  assumes "voices s = [googleFrancais]"
  shows "setVoice pf s (js ''male'') (js ''fr'') =
           Inr (s\<lparr>selectedVoice := Some googleFrancais, currentLang := Str (js ''fr-FR''),
                  preferredGender := js ''male'', preferredLang := js ''fr'',
                  defaultPitch := Some 0.85\<rparr>) \<and>
         find (\<lambda>v. matchesAny maleKeywords v) (voices s) = None \<and>
         find (\<lambda>v. \<not> matchesAny femaleKeywords v) (voices s) = Some googleFrancais"
proof -
  have b: "bestVoice (js ''male'') [googleFrancais] = Some googleFrancais"
    by (simp add: bestVoice_def googleFrancais_not_male googleFrancais_not_female
        female_not_male [symmetric])
  show ?thesis
    by (simp add: setVoice_Str [OF normalizeLang_fr] assms googleFrancais_fr b
        googleFrancais_not_male googleFrancais_not_female)
qed

theorem setVoice_male_fr_witness:
  "voices frenchOnly = [googleFrancais] \<and>
   setVoice browser frenchOnly (js ''male'') (js ''fr'') =
     Inr (frenchOnly\<lparr>selectedVoice := Some googleFrancais, currentLang := Str (js ''fr-FR''),
            preferredGender := js ''male'', preferredLang := js ''fr'',
            defaultPitch := Some 0.85\<rparr>)"
proof -
  have h: "voices frenchOnly = [googleFrancais]"
    by (simp add: frenchOnly_eq)
  show ?thesis
    using setVoice_male_fr [OF h, of browser] h by simp
qed

section \<open>Listening\<close>

lemma listening_eq:
  "listening =
     \<lparr>recognition = Some \<lparr>handlers = Some allCallbacks\<rparr>, synthesis = Some [],
      isListening = True, selectedVoice = None, voices = [], utteranceQueue = [],
      isSpeakingFlag = False, currentLang = Str (js ''en-US''), preferredGender = js ''female'',
      preferredLang = js ''en-US'', audio = \<lparr>playing = False\<rparr>, isGoogleSpeaking = False,
      defaultPitch = None\<rparr>"
  by (simp add: listening_def startListening_def constructor_def init_def loadVoices_def)

text \<open>
  C5. The claim: \<^verbatim>\<open>stopListening()\<close> does not bring the session back to idle by itself;
  called while recognition is available and the session is listening, it leaves the
  listening flag true, and the flag becomes false only when the platform delivers its
  end or error notification.

  The code clears the flag itself (line 259): in the listening controller the flag is
  false as soon as \<^verbatim>\<open>stopListening()\<close> has returned.
\<close>

theorem stopListening_counterexample:
  "recognition listening \<noteq> None \<and> isListening listening \<and>
   \<not> isListening (snd (stopListening listening))"
  by (simp add: listening_eq stopListening_def)

text \<open>
  C5, as the code has it: called while recognition is available and the session is
  listening, \<^verbatim>\<open>stopListening()\<close> asks the platform to stop and clears the listening flag
  before it returns; the platform's later end or error notification leaves the flag
  false.
\<close>

theorem stopListening_synchronous:
  assumes "recognition s \<noteq> None" and "isListening s"
  shows "stopListening s = ([RecognitionStop], s\<lparr>isListening := False\<rparr>) \<and>
         \<not> isListening (snd (onend (snd (stopListening s)))) \<and>
         \<not> isListening (snd (onerror (snd (stopListening s))))"
  using assms by (auto simp: stopListening_def onend_def onerror_def split: option.splits)

theorem stopListening_synchronous_witness:
  "recognition listening \<noteq> None \<and> isListening listening \<and>
   stopListening listening = ([RecognitionStop], listening\<lparr>isListening := False\<rparr>)"
proof -
  have h1: "recognition listening \<noteq> None" by (simp add: listening_eq)
  have h2: "isListening listening" by (simp add: listening_eq)
  show ?thesis using stopListening_synchronous [OF h1 h2] h1 h2 by simp
qed

section \<open>Speaking\<close>

subsection \<open>What no action changes\<close>

lemma frame_refl [simp]: "frame s s"
  by (simp add: frame_def)
















subsection \<open>The first statement of speak\<close>

lemma stopSpeaking_Some:
  "synthesis s = Some queue \<Longrightarrow>
   stopSpeaking s =
     ([SynthesisCancel, AudioPause, AudioRewind],
      s\<lparr>synthesis := Some [], audio := (audio s)\<lparr>playing := False\<rparr>, isGoogleSpeaking := False\<rparr>,
      Returned)"
  by (simp add: stopSpeaking_def)



lemma speak_Some:
  "synthesis s = Some queue \<Longrightarrow>
   speak pf s text opts =
     ([SynthesisCancel, AudioPause, AudioRewind]
        @ fst (speakBody pf
                 (s\<lparr>synthesis := Some [], audio := (audio s)\<lparr>playing := False\<rparr>,
                    isGoogleSpeaking := False\<rparr>) text opts),
      snd (speakBody pf
             (s\<lparr>synthesis := Some [], audio := (audio s)\<lparr>playing := False\<rparr>,
                isGoogleSpeaking := False\<rparr>) text opts))"
  by (simp add: speak_def stopSpeaking_Some)

lemma effectiveLang_stopped [simp]:
  "effectiveLang (s\<lparr>synthesis := q, audio := a, isGoogleSpeaking := b\<rparr>) opts = effectiveLang s opts"
  by (simp add: effectiveLang_def split: option.splits)

lemma needsFallback_stopped [simp]:
  "needsFallback (s\<lparr>synthesis := q, audio := a, isGoogleSpeaking := b\<rparr>) baseLang =
   needsFallback s baseLang"
  by (simp add: needsFallback_def)








subsection \<open>Examples\<close>









lemma frenchOnly_synthesis: "synthesis frenchOnly = Some []"
  by (simp add: frenchOnly_eq)

lemma frenchOnly_stopped:
  "frenchOnly\<lparr>synthesis := Some [], audio := (audio frenchOnly)\<lparr>playing := False\<rparr>,
     isGoogleSpeaking := False\<rparr> = frenchOnly"
  by (simp add: frenchOnly_eq)


lemma reachable_frenchOnly: "reachable browser frenchOnly"
proof -
  have "snd (constructor browser True [googleFrancais]) = Returned"
    by (simp add: constructor_def init_def loadVoices_def setVoice_Str [OF normalizeLang_en_US])
  then show ?thesis
    unfolding frenchOnly_def by (rule reachable.constructed)
qed

lemma wellFormed_Hello: "wellFormed (js ''Hello'')"
  by (simp add: js_def isHighSurrogate_def isLowSurrogate_def)

lemma frenchOnly_lang: "effectiveLang frenchOnly withCallbacks = Str (js ''en-US'')"
  by (simp add: effectiveLang_def frenchOnly_eq withCallbacks_simps)

lemma frenchOnly_remote: "needsFallback frenchOnly (splitFirst (js ''en-US''))"
  by (simp add: needsFallback_def frenchOnly_eq googleFrancais_not_en)

lemma speak_frenchOnly:
  "speak browser frenchOnly (Str (js ''Hello'')) withCallbacks =
     ([SynthesisCancel, AudioPause, AudioRewind, CallOnStart,
       CallPlayGoogleTTS (js ''Hello'') (js ''en''), Fetch (js ''Hello'') (js ''en'')],
      frenchOnly\<lparr>isGoogleSpeaking := True\<rparr>, Awaiting)"
  using frenchOnly_remote
  by (simp add: speak_Some [OF frenchOnly_synthesis] frenchOnly_stopped speakBody_def
      frenchOnly_lang sanitize_Hello playGoogleTTS_def wellFormed_Hello splitFirst_en_US
      withCallbacks_simps)

lemma remoteSpeaking_eq: "remoteSpeaking = frenchOnly\<lparr>isGoogleSpeaking := True\<rparr>"
  by (simp add: remoteSpeaking_def speak_frenchOnly)

lemma reachable_remoteSpeaking: "reachable browser remoteSpeaking"
  unfolding remoteSpeaking_def by (intro reachable.stepped reachable_frenchOnly)









text \<open>A request that is pending when \<^verbatim>\<open>stopSpeaking()\<close> runs is not given up: the
  controller that has gone to the remote service and has then been stopped plays the
  audio once it arrives, with the remote flag false.\<close>

lemma pending_request_outlives_stop:
  "reachable browser (step browser RemoteArrived (step browser StopSpeaking remoteSpeaking)) \<and>
   playing (audio (step browser RemoteArrived (step browser StopSpeaking remoteSpeaking))) \<and>
   \<not> isGoogleSpeaking (step browser RemoteArrived (step browser StopSpeaking remoteSpeaking))"
proof -
  have "reachable browser (step browser RemoteArrived (step browser StopSpeaking remoteSpeaking))"
    by (intro reachable.stepped reachable_remoteSpeaking)
  then show ?thesis
    by (simp add: remoteSpeaking_eq frenchOnly_eq stopSpeaking_def remoteArrived_def)
qed














end
